theory Spec2Isabelle
  imports Main "HOL-Library.Word"
begin

section \<open>Power BI report uploader: data model\<close>

text \<open>
  The repository holds two programs that run the same workflow: \<^verbatim>\<open>main.py\<close> (a FastAPI
  endpoint, \<^verbatim>\<open>upload_report\<close>) and \<^verbatim>\<open>upload_report.py\<close> (a command line script,
  \<^verbatim>\<open>main\<close>). Both are embedded. A function of \<^verbatim>\<open>upload_report.py\<close> carries the suffix
  \<open>_script\<close>; a function of \<^verbatim>\<open>main.py\<close> keeps its name.

  Every call that leaves the process (identity provider, object store, platform, clock,
  console) is an \<open>event\<close>; a function takes the events so far and returns its result
  together with the events extended by what it did. What the outside world answers is
  fixed by an \<open>env\<close>.

  The answers have the types of the interfaces the code is written against: the identity
  provider returns a dict of strings, the platform returns an HTTP response, and the body
  of a successful listing response is a JSON object whose \<^verbatim>\<open>value\<close>, when present, is an
  array of reports with a \<^verbatim>\<open>name\<close> and an \<^verbatim>\<open>id\<close>. The object-store calls may raise, which
  \<^verbatim>\<open>main.py\<close> handles with \<^verbatim>\<open>try\<close>; the identity and HTTP clients are taken to return.
\<close>

type_synonym bytes = "8 word list"

text \<open>The \<^verbatim>\<open>headers\<close> dict, and the \<^verbatim>\<open>files\<close> dict of \<^verbatim>\<open>requests.post\<close>: field name to
  (filename, content, content type).\<close>

type_synonym headers = "(string \<times> string) list"
type_synonym files = "(string \<times> (string \<times> bytes \<times> string)) list"

text \<open>An entry of the listing's \<^verbatim>\<open>value\<close> array: the code reads \<^verbatim>\<open>report["name"]\<close> and
  \<^verbatim>\<open>report["id"]\<close>.\<close>

record report =
  name :: string
  id' :: string

text \<open>
  What the code reads of a \<^verbatim>\<open>requests\<close> response: \<^verbatim>\<open>resp.status_code\<close>, \<^verbatim>\<open>resp.ok\<close>,
  \<^verbatim>\<open>resp.text\<close>, and \<^verbatim>\<open>resp.json().get("value")\<close> (\<open>None\<close> when the key is absent).
\<close>

record response =
  status_code :: int
  ok :: bool
  text' :: string
  json_value :: "report list option"

text \<open>One constructor for each \<^verbatim>\<open>print\<close> statement of \<^verbatim>\<open>upload_report.py\<close>, carrying the
  values the statement interpolates, in the order of the source.\<close>

datatype message =
    Msg_missing_env "string list"
  | Msg_token_error "string option"
  | Msg_token_acquired
  | Msg_downloaded "string option" nat
  | Msg_uploading string string
  | Msg_upload_failed int string
  | Msg_upload_accepted int
  | Msg_attempt nat
  | Msg_success
  | Msg_report_name string
  | Msg_report_id string
  | Msg_workspace_id string
  | Msg_unconfirmed
  | Msg_check_workspace string

datatype event =
    Acquire_token
  | Download_blob
  | Post string headers files
  | Sleep nat
  | Get string headers
  | Print message

text \<open>
  Exceptions: \<^verbatim>\<open>HTTPException(status_code, detail)\<close> of FastAPI, \<^verbatim>\<open>SystemExit(code)\<close> raised
  by \<^verbatim>\<open>sys.exit\<close>, and an exception raised inside the object-store client, of which the
  code reads \<^verbatim>\<open>str(e)\<close> only: \<open>StoreException s\<close> is such an exception with
  \<^verbatim>\<open>str(e)\<close> equal to \<open>s\<close>.
\<close>

datatype py_exception =
    HTTPException int string
  | SystemExit int
  | StoreException string

text \<open>
  The outside world:
  \<^item> \<open>getenv\<close>: the process environment (\<^verbatim>\<open>os.getenv\<close>);
  \<^item> \<open>token_result\<close>: the dict returned by \<^verbatim>\<open>acquire_token_for_client\<close>;
  \<^item> \<open>blob_result\<close>: what the four object-store calls of \<^verbatim>\<open>download_empty_pbix\<close> end in,
    the bytes read, or \<^verbatim>\<open>str(e)\<close> of the \<^verbatim>\<open>Exception\<close> raised;
  \<^item> \<open>post_reply\<close>: the platform's answer to a POST;
  \<^item> \<open>get_reply n\<close>: the platform's answer to the listing call number \<open>n\<close> of the run
    (counted from 0), so that the listing may change from one call to the next.
\<close>

record env =
  getenv :: "string \<Rightarrow> string option"
  token_result :: "string \<Rightarrow> string option"
  blob_result :: "string + bytes"
  post_reply :: "string \<Rightarrow> headers \<Rightarrow> files \<Rightarrow> response"
  get_reply :: "nat \<Rightarrow> string \<Rightarrow> headers \<Rightarrow> response"

definition POWERBI_API :: string where
  "POWERBI_API = ''https://api.powerbi.com/v1.0/myorg''"

subsection \<open>Python primitives\<close>

text \<open>\<^verbatim>\<open>str.lower\<close> on the 8-bit characters of \<open>string\<close>: the letters A to Z are
  folded, every other character is kept.\<close>

definition lower_char :: "char \<Rightarrow> char" where
  "lower_char c =
     (case map_of (zip ''ABCDEFGHIJKLMNOPQRSTUVWXYZ'' ''abcdefghijklmnopqrstuvwxyz'') c of
        None \<Rightarrow> c
      | Some l \<Rightarrow> l)"

definition lower :: "string \<Rightarrow> string" where
  "lower s = map lower_char s"

text \<open>An f-string field holding the result of \<^verbatim>\<open>dict.get\<close>: \<^verbatim>\<open>None\<close> prints as \<open>None\<close>.\<close>

fun format_get :: "string option \<Rightarrow> string" where
  "format_get None = ''None''"
| "format_get (Some s) = s"

text \<open>Truth value of a \<^verbatim>\<open>str | None\<close>: \<^verbatim>\<open>None\<close> and the empty string are false.\<close>

fun truthy :: "string option \<Rightarrow> bool" where
  "truthy None = False"
| "truthy (Some s) = (s \<noteq> [])"

fun is_Get :: "event \<Rightarrow> bool" where
  "is_Get (Get u h) = True"
| "is_Get e = False"

fun is_Post :: "event \<Rightarrow> bool" where
  "is_Post (Post u h f) = True"
| "is_Post e = False"

fun is_Print :: "event \<Rightarrow> bool" where
  "is_Print (Print m) = True"
| "is_Print e = False"

text \<open>The number of listing calls made so far.\<close>

definition listing_calls :: "event list \<Rightarrow> nat" where
  "listing_calls tr = length (filter is_Get tr)"

section \<open>main.py\<close>

definition get_access_token :: "env \<Rightarrow> event list \<Rightarrow> (py_exception + string) \<times> event list" where
  "get_access_token e tr =
     (let result = token_result e; tr1 = tr @ [Acquire_token] in
      case result ''access_token'' of
        None \<Rightarrow>
          (Inl (HTTPException 500 (''Token error: '' @ format_get (result ''error_description''))),
           tr1)
      | Some access_token \<Rightarrow> (Inr access_token, tr1))"

definition download_empty_pbix :: "env \<Rightarrow> event list \<Rightarrow> (py_exception + bytes) \<times> event list" where
  "download_empty_pbix e tr =
     (let tr1 = tr @ [Download_blob] in
      case blob_result e of
        Inr data \<Rightarrow> (Inr data, tr1)
      | Inl str_e \<Rightarrow> (Inl (HTTPException 500 (''Blob download failed: '' @ str_e)), tr1))"

text \<open>The inner loop of \<^verbatim>\<open>fetch_report_id\<close>: the entries in listing order, returning at
  the first whose lowered name equals the lowered requested name.\<close>

fun find_report :: "report list \<Rightarrow> string \<Rightarrow> string option" where
  "find_report [] report_name = None"
| "find_report (r # rs) report_name =
     (if lower (name r) = lower report_name then Some (id' r) else find_report rs report_name)"

text \<open>The outer loop, over the attempts that are left of \<^verbatim>\<open>range(8)\<close>.\<close>

fun poll :: "env \<Rightarrow> string \<Rightarrow> headers \<Rightarrow> string \<Rightarrow> nat list \<Rightarrow> event list
    \<Rightarrow> string option \<times> event list" where
  "poll e reports_url hs report_name [] tr = (None, tr)"
| "poll e reports_url hs report_name (attempt # rest) tr =
     (let tr1 = tr @ [Sleep 3];
          resp = get_reply e (listing_calls tr1) reports_url hs;
          tr2 = tr1 @ [Get reports_url hs];
          found = (if ok resp
                   then find_report (case json_value resp of None \<Rightarrow> [] | Some v \<Rightarrow> v) report_name
                   else None)
      in case found of
           Some i \<Rightarrow> (Some i, tr2)
         | None \<Rightarrow> poll e reports_url hs report_name rest tr2)"

definition fetch_report_id :: "env \<Rightarrow> headers \<Rightarrow> string \<Rightarrow> string \<Rightarrow> event list
    \<Rightarrow> string option \<times> event list" where
  "fetch_report_id e hs workspace_id report_name tr =
     poll e (POWERBI_API @ ''/groups/'' @ workspace_id @ ''/reports'') hs report_name [0..<8] tr"

section \<open>upload_report.py\<close>

definition get_access_token_script :: "env \<Rightarrow> event list
    \<Rightarrow> (py_exception + string) \<times> event list" where
  "get_access_token_script e tr =
     (let result = token_result e; tr1 = tr @ [Acquire_token] in
      case result ''access_token'' of
        None \<Rightarrow>
          (Inl (SystemExit 1), tr1 @ [Print (Msg_token_error (result ''error_description''))])
      | Some access_token \<Rightarrow> (Inr access_token, tr1 @ [Print Msg_token_acquired]))"

text \<open>No \<^verbatim>\<open>try\<close> here: an exception of the object-store client leaves the function as
  it is.\<close>

definition download_empty_pbix_script :: "env \<Rightarrow> event list
    \<Rightarrow> (py_exception + bytes) \<times> event list" where
  "download_empty_pbix_script e tr =
     (let tr1 = tr @ [Download_blob] in
      case blob_result e of
        Inl str_e \<Rightarrow> (Inl (StoreException str_e), tr1)
      | Inr data \<Rightarrow>
          (Inr data, tr1 @ [Print (Msg_downloaded (getenv e ''EMPTY_PBIX_NAME'') (length data))]))"

definition upload_to_workspace_script :: "env \<Rightarrow> string \<Rightarrow> string \<Rightarrow> string \<Rightarrow> bytes
    \<Rightarrow> event list \<Rightarrow> (py_exception + headers) \<times> event list" where
  "upload_to_workspace_script e access_token workspace_id report_name pbix_bytes tr =
     (let hs = [(''Authorization'', ''Bearer '' @ access_token)];
          upload_url = POWERBI_API @ ''/groups/'' @ workspace_id @ ''/imports''
            @ ''?datasetDisplayName='' @ report_name
            @ ''&nameConflict=CreateOrOverwrite'';
          fs = [(''file'', (report_name @ ''.pbix'', pbix_bytes,
                   ''application/vnd.ms-powerbi.pbix''))];
          tr1 = tr @ [Print (Msg_uploading report_name workspace_id)];
          resp = post_reply e upload_url hs fs;
          tr2 = tr1 @ [Post upload_url hs fs]
      in if status_code resp \<notin> {200, 201, 202}
         then (Inl (SystemExit 1),
               tr2 @ [Print (Msg_upload_failed (status_code resp) (text' resp))])
         else (Inr hs, tr2 @ [Print (Msg_upload_accepted (status_code resp))]))"

fun poll_script :: "env \<Rightarrow> string \<Rightarrow> headers \<Rightarrow> string \<Rightarrow> nat list \<Rightarrow> event list
    \<Rightarrow> string option \<times> event list" where
  "poll_script e reports_url hs report_name [] tr = (None, tr)"
| "poll_script e reports_url hs report_name (attempt # rest) tr =
     (let tr1 = tr @ [Sleep 3];
          resp = get_reply e (listing_calls tr1) reports_url hs;
          tr2 = tr1 @ [Get reports_url hs];
          found = (if ok resp
                   then find_report (case json_value resp of None \<Rightarrow> [] | Some v \<Rightarrow> v) report_name
                   else None)
      in case found of
           Some i \<Rightarrow> (Some i, tr2)
         | None \<Rightarrow>
             poll_script e reports_url hs report_name rest
               (tr2 @ [Print (Msg_attempt (attempt + 1))]))"

definition fetch_report_id_script :: "env \<Rightarrow> headers \<Rightarrow> string \<Rightarrow> string \<Rightarrow> event list
    \<Rightarrow> string option \<times> event list" where
  "fetch_report_id_script e hs workspace_id report_name tr =
     poll_script e (POWERBI_API @ ''/groups/'' @ workspace_id @ ''/reports'') hs report_name
       [0..<8] tr"

text \<open>The parsed command line: both options are required.\<close>

record args =
  arg_workspace_id :: string
  arg_report_name :: string

definition required_env :: "string list" where
  "required_env = [''TENANT_ID'', ''CLIENT_ID'', ''CLIENT_SECRET'',
     ''AZURE_STORAGE_CONNECTION_STRING'', ''BLOB_CONTAINER'', ''EMPTY_PBIX_NAME'']"

definition main_script :: "env \<Rightarrow> args \<Rightarrow> event list \<Rightarrow> (py_exception + unit) \<times> event list" where
  "main_script e a tr =
     (let missing = filter (\<lambda>v. \<not> truthy (getenv e v)) required_env in
      if missing \<noteq> [] then (Inl (SystemExit 1), tr @ [Print (Msg_missing_env missing)])
      else
        case get_access_token_script e tr of
          (Inl ex, tr1) \<Rightarrow> (Inl ex, tr1)
        | (Inr token, tr1) \<Rightarrow>
            (case download_empty_pbix_script e tr1 of
               (Inl ex, tr2) \<Rightarrow> (Inl ex, tr2)
             | (Inr pbix_bytes, tr2) \<Rightarrow>
                 (case upload_to_workspace_script e token (arg_workspace_id a)
                         (arg_report_name a) pbix_bytes tr2 of
                    (Inl ex, tr3) \<Rightarrow> (Inl ex, tr3)
                  | (Inr hs, tr3) \<Rightarrow>
                      (case fetch_report_id_script e hs (arg_workspace_id a)
                              (arg_report_name a) tr3 of
                         (rid, tr4) \<Rightarrow>
                           if truthy rid
                           then (Inr (), tr4 @ [Print Msg_success,
                                   Print (Msg_report_name (arg_report_name a)),
                                   Print (Msg_report_id (format_get rid)),
                                   Print (Msg_workspace_id (arg_workspace_id a))])
                           else (Inr (), tr4 @ [Print Msg_unconfirmed,
                                   Print (Msg_check_workspace (arg_workspace_id a))])))))"

section \<open>main.py: the endpoint\<close>

record upload_request =
  workspace_id :: string
  report_name :: string

record upload_response =
  message :: string
  resp_workspace_id :: string
  resp_report_name :: string
  report_id :: "string option"

definition upload_report :: "env \<Rightarrow> upload_request \<Rightarrow> event list
    \<Rightarrow> (py_exception + upload_response) \<times> event list" where
  "upload_report e body tr =
     (case get_access_token e tr of
        (Inl ex, tr1) \<Rightarrow> (Inl ex, tr1)
      | (Inr access_token, tr1) \<Rightarrow>
          (let hs = [(''Authorization'', ''Bearer '' @ access_token)] in
           case download_empty_pbix e tr1 of
             (Inl ex, tr2) \<Rightarrow> (Inl ex, tr2)
           | (Inr pbix_bytes, tr2) \<Rightarrow>
               (let upload_url = POWERBI_API @ ''/groups/'' @ workspace_id body @ ''/imports''
                      @ ''?datasetDisplayName='' @ report_name body
                      @ ''&nameConflict=CreateOrOverwrite'';
                    fs = [(''file'', (report_name body @ ''.pbix'', pbix_bytes,
                             ''application/vnd.ms-powerbi.pbix''))];
                    resp = post_reply e upload_url hs fs;
                    tr3 = tr2 @ [Post upload_url hs fs]
                in if status_code resp \<notin> {200, 201, 202}
                   then (Inl (HTTPException (status_code resp) (text' resp)), tr3)
                   else (case fetch_report_id e hs (workspace_id body) (report_name body) tr3 of
                           (rid, tr4) \<Rightarrow>
                             (Inr \<lparr>message = (if truthy rid then ''Report uploaded successfully''
                                     else ''Upload accepted but report ID not yet confirmed''),
                                   resp_workspace_id = workspace_id body,
                                   resp_report_name = report_name body,
                                   report_id = rid\<rparr>, tr4)))))"

section \<open>Notions used to state the properties\<close>

text \<open>What one listing attempt finds, given that it is answered by reply number \<open>n\<close>: the
  body of the loop of \<^verbatim>\<open>fetch_report_id\<close> after the call.\<close>

definition listing_match :: "env \<Rightarrow> string \<Rightarrow> headers \<Rightarrow> string \<Rightarrow> nat \<Rightarrow> string option" where
  "listing_match e url hs rn n =
     (let resp = get_reply e n url hs in
      if ok resp then find_report (case json_value resp of None \<Rightarrow> [] | Some v \<Rightarrow> v) rn
      else None)"

text \<open>Shorthands for the values both programs build: the listing URL, the import URL, the
  \<^verbatim>\<open>headers\<close> dict and the \<^verbatim>\<open>files\<close> dict.\<close>

abbreviation reports_url_of :: "string \<Rightarrow> string" where
  "reports_url_of ws \<equiv> POWERBI_API @ ''/groups/'' @ ws @ ''/reports''"

abbreviation upload_url_of :: "string \<Rightarrow> string \<Rightarrow> string" where
  "upload_url_of ws rn \<equiv> POWERBI_API @ ''/groups/'' @ ws @ ''/imports''
     @ ''?datasetDisplayName='' @ rn @ ''&nameConflict=CreateOrOverwrite''"

abbreviation bearer :: "string \<Rightarrow> headers" where
  "bearer tok \<equiv> [(''Authorization'', ''Bearer '' @ tok)]"

abbreviation pbix_file :: "string \<Rightarrow> bytes \<Rightarrow> files" where
  "pbix_file rn b \<equiv> [(''file'', (rn @ ''.pbix'', b, ''application/vnd.ms-powerbi.pbix''))]"

text \<open>Every listing call in a sequence of events comes right after a sleep of 3.\<close>

abbreviation delay_before_each_get :: "event list \<Rightarrow> bool" where
  "delay_before_each_get evs \<equiv>
     \<forall>pre u h post. evs = pre @ Get u h # post \<longrightarrow> (\<exists>pre'. pre = pre' @ [Sleep 3])"

text \<open>The time slept in a sequence of events.\<close>

fun slept :: "event list \<Rightarrow> nat" where
  "slept [] = 0"
| "slept (Sleep d # es) = d + slept es"
| "slept (x # es) = slept es"


text \<open>A reply that says "nothing listed": successful, with an empty \<^verbatim>\<open>value\<close> array.\<close>

definition nothing_listed :: "response \<Rightarrow> response" where
  "nothing_listed r = r\<lparr>ok := True, json_value := Some []\<rparr>"

text \<open>The world in which every failed listing call is answered by \<open>nothing_listed\<close>
  instead.\<close>

definition failures_as_empty :: "env \<Rightarrow> env" where
  "failures_as_empty e =
     e\<lparr>get_reply := (\<lambda>n u h. let r = get_reply e n u h in if ok r then r else nothing_listed r)\<rparr>"

text \<open>The query of a URL in the generic URI syntax: what follows the first \<open>?\<close>, up to the first
  \<open>#\<close>; its parameters are separated by \<open>&\<close>.\<close>

fun split_on :: "char \<Rightarrow> string \<Rightarrow> string list" where
  "split_on c [] = [[]]"
| "split_on c (x # xs) =
     (if x = c then [] # split_on c xs
      else (case split_on c xs of [] \<Rightarrow> [[x]] | w # ws \<Rightarrow> (x # w) # ws))"



subsection \<open>Concrete worlds\<close>

definition accepted_reply :: response where
  "accepted_reply = \<lparr>status_code = 202, ok = True, text' = [], json_value = None\<rparr>"

definition failed_listing :: response where
  "failed_listing = \<lparr>status_code = 503, ok = False, text' = ''busy'', json_value = None\<rparr>"

definition sales_listing :: response where
  "sales_listing = \<lparr>status_code = 200, ok = True, text' = [],
     json_value = Some [\<lparr>name = ''Other'', id' = ''r0''\<rparr>, \<lparr>name = ''Sales'', id' = ''r1''\<rparr>,
                        \<lparr>name = ''sales'', id' = ''r2''\<rparr>]\<rparr>"

text \<open>The import is accepted; the first two listing calls fail, from the third on the
  listing holds reports named \<open>Sales\<close> and \<open>sales\<close>.\<close>

definition world_late :: env where
  "world_late = \<lparr>getenv = (\<lambda>v. Some ''set''),
     token_result = [''access_token'' \<mapsto> ''tok''],
     blob_result = Inr [80, 75, 3, 4],
     post_reply = (\<lambda>u h f. accepted_reply),
     get_reply = (\<lambda>n u h. if n < 2 then failed_listing else sales_listing)\<rparr>"

text \<open>The import is accepted; the report never shows in the listing.\<close>

definition world_never :: env where
  "world_never = world_late\<lparr>get_reply :=
     (\<lambda>n u h. if even n then failed_listing
                else \<lparr>status_code = 200, ok = True, text' = [],
                       json_value = Some [\<lparr>name = ''Other'', id' = ''r0''\<rparr>]\<rparr>)\<rparr>"

text \<open>The platform rejects the import (scenario D).\<close>

definition world_rejected :: env where
  "world_rejected = world_late\<lparr>post_reply :=
     (\<lambda>u h f. \<lparr>status_code = 400, ok = False, text' = ''Invalid dataset'', json_value = None\<rparr>)\<rparr>"

text \<open>The identity provider answers with an error description (scenario C).\<close>

definition world_no_token :: env where
  "world_no_token = world_late\<lparr>token_result :=
     [''error'' \<mapsto> ''invalid_client'', ''error_description'' \<mapsto> ''Invalid client secret'']\<rparr>"

text \<open>The object store has no such blob.\<close>

definition world_no_blob :: env where
  "world_no_blob = world_late\<lparr>blob_result := Inl ''The specified blob does not exist.''\<rparr>"

section \<open>The polling loop\<close>

lemma listing_calls_append [simp]:
  "listing_calls (tr @ es) = listing_calls tr + listing_calls es"
  by (simp add: listing_calls_def)

lemma listing_calls_simps [simp]:
  "listing_calls [] = 0"
  "listing_calls (Get u h # es) = Suc (listing_calls es)"
  "listing_calls (Sleep d # es) = listing_calls es"
  "listing_calls (Print m # es) = listing_calls es"
  "listing_calls (Post u h f # es) = listing_calls es"
  "listing_calls (Acquire_token # es) = listing_calls es"
  "listing_calls (Download_blob # es) = listing_calls es"
  by (simp_all add: listing_calls_def)

lemma poll_Cons:
  "poll e url hs rn (a # as) tr =
     (case listing_match e url hs rn (listing_calls tr) of
        Some i \<Rightarrow> (Some i, tr @ [Sleep 3, Get url hs])
      | None \<Rightarrow> poll e url hs rn as (tr @ [Sleep 3, Get url hs]))"
  by (simp add: listing_match_def Let_def split: option.split)

lemma poll_script_Cons:
  "poll_script e url hs rn (a # as) tr =
     (case listing_match e url hs rn (listing_calls tr) of
        Some i \<Rightarrow> (Some i, tr @ [Sleep 3, Get url hs])
      | None \<Rightarrow>
          poll_script e url hs rn as (tr @ [Sleep 3, Get url hs, Print (Msg_attempt (Suc a))]))"
  by (simp add: listing_match_def Let_def split: option.split)

lemma first_attempt_none:
  assumes "\<forall>j<Suc k. listing_match e url hs rn (n + j) = None"
  shows "listing_match e url hs rn n = None"
  using assms by (metis add.right_neutral zero_less_Suc)

lemma later_attempts_none:
  assumes "\<forall>j<Suc k. listing_match e url hs rn (n + j) = None"
  shows "\<forall>j<k. listing_match e url hs rn (Suc n + j) = None"
  using assms by (metis add_Suc_shift Suc_less_eq)

text \<open>The loop of \<^verbatim>\<open>main.py\<close> when attempt \<open>k\<close> is the first that finds the report.\<close>

lemma poll_found:
  "k < length as \<Longrightarrow> \<forall>j<k. listing_match e url hs rn (listing_calls tr + j) = None
   \<Longrightarrow> listing_match e url hs rn (listing_calls tr + k) = Some i
   \<Longrightarrow> poll e url hs rn as tr = (Some i, tr @ concat (replicate (Suc k) [Sleep 3, Get url hs]))"
proof (induction as arbitrary: tr k)
  case Nil
  then show ?case by simp
next
  case (Cons a as)
  show ?case
  proof (cases k)
    case 0
    with Cons.prems show ?thesis by (simp add: poll_Cons del: poll.simps)
  next
    case (Suc k')
    from Cons.prems(2) Suc have none0: "listing_match e url hs rn (listing_calls tr) = None"
      by (simp add: first_attempt_none)
    have "poll e url hs rn as (tr @ [Sleep 3, Get url hs])
        = (Some i, (tr @ [Sleep 3, Get url hs]) @ concat (replicate (Suc k') [Sleep 3, Get url hs]))"
    proof (rule Cons.IH)
      show "k' < length as" using Cons.prems(1) Suc by simp
      show "\<forall>j<k'. listing_match e url hs rn (listing_calls (tr @ [Sleep 3, Get url hs]) + j) = None"
        using later_attempts_none Cons.prems(2) Suc by simp
      show "listing_match e url hs rn (listing_calls (tr @ [Sleep 3, Get url hs]) + k') = Some i"
        using Cons.prems(3) Suc by simp
    qed
    with none0 Suc show ?thesis by (simp add: poll_Cons del: poll.simps)
  qed
qed

text \<open>The loop of \<^verbatim>\<open>main.py\<close> when no attempt finds the report.\<close>

lemma poll_exhausted:
  "\<forall>j<length as. listing_match e url hs rn (listing_calls tr + j) = None
   \<Longrightarrow> poll e url hs rn as tr = (None, tr @ concat (replicate (length as) [Sleep 3, Get url hs]))"
proof (induction as arbitrary: tr)
  case Nil
  then show ?case by simp
next
  case (Cons a as)
  from Cons.prems have none0: "listing_match e url hs rn (listing_calls tr) = None"
    by (simp add: first_attempt_none)
  have "poll e url hs rn as (tr @ [Sleep 3, Get url hs])
      = (None, (tr @ [Sleep 3, Get url hs]) @ concat (replicate (length as) [Sleep 3, Get url hs]))"
  proof (rule Cons.IH)
    show "\<forall>j<length as. listing_match e url hs rn (listing_calls (tr @ [Sleep 3, Get url hs]) + j) = None"
      using later_attempts_none Cons.prems by simp
  qed
  with none0 show ?case by (simp add: poll_Cons del: poll.simps)
qed

text \<open>The same two facts for the loop of \<^verbatim>\<open>upload_report.py\<close>, which prints after every
  attempt that found nothing.\<close>

lemma poll_script_found:
  "k < length as \<Longrightarrow> \<forall>j<k. listing_match e url hs rn (listing_calls tr + j) = None
   \<Longrightarrow> listing_match e url hs rn (listing_calls tr + k) = Some i
   \<Longrightarrow> poll_script e url hs rn as tr =
       (Some i, tr @ concat (map (\<lambda>a. [Sleep 3, Get url hs, Print (Msg_attempt (Suc a))]) (take k as))
                  @ [Sleep 3, Get url hs])"
proof (induction as arbitrary: tr k)
  case Nil
  then show ?case by simp
next
  case (Cons a as)
  show ?case
  proof (cases k)
    case 0
    with Cons.prems show ?thesis by (simp add: poll_script_Cons del: poll_script.simps)
  next
    case (Suc k')
    let ?tr = "tr @ [Sleep 3, Get url hs, Print (Msg_attempt (Suc a))]"
    from Cons.prems(2) Suc have none0: "listing_match e url hs rn (listing_calls tr) = None"
      by (simp add: first_attempt_none)
    have "poll_script e url hs rn as ?tr
        = (Some i, ?tr @ concat (map (\<lambda>a. [Sleep 3, Get url hs, Print (Msg_attempt (Suc a))]) (take k' as))
                     @ [Sleep 3, Get url hs])"
    proof (rule Cons.IH)
      show "k' < length as" using Cons.prems(1) Suc by simp
      show "\<forall>j<k'. listing_match e url hs rn (listing_calls ?tr + j) = None"
        using later_attempts_none Cons.prems(2) Suc by simp
      show "listing_match e url hs rn (listing_calls ?tr + k') = Some i"
        using Cons.prems(3) Suc by simp
    qed
    with none0 Suc show ?thesis by (simp add: poll_script_Cons del: poll_script.simps)
  qed
qed

lemma poll_script_exhausted:
  "\<forall>j<length as. listing_match e url hs rn (listing_calls tr + j) = None
   \<Longrightarrow> poll_script e url hs rn as tr =
       (None, tr @ concat (map (\<lambda>a. [Sleep 3, Get url hs, Print (Msg_attempt (Suc a))]) as))"
proof (induction as arbitrary: tr)
  case Nil
  then show ?case by simp
next
  case (Cons a as)
  let ?tr = "tr @ [Sleep 3, Get url hs, Print (Msg_attempt (Suc a))]"
  from Cons.prems have none0: "listing_match e url hs rn (listing_calls tr) = None"
    by (simp add: first_attempt_none)
  have "poll_script e url hs rn as ?tr
      = (None, ?tr @ concat (map (\<lambda>a. [Sleep 3, Get url hs, Print (Msg_attempt (Suc a))]) as))"
  proof (rule Cons.IH)
    show "\<forall>j<length as. listing_match e url hs rn (listing_calls ?tr + j) = None"
      using later_attempts_none Cons.prems by simp
  qed
  with none0 show ?case by (simp add: poll_script_Cons del: poll_script.simps)
qed

text \<open>Either some attempt is the first to find the report, or none does.\<close>

lemma first_match_cases:
  fixes m :: "nat \<Rightarrow> 'a option"
  obtains (found) k i where "k < n" "\<forall>j<k. m j = None" "m k = Some i"
        | (none) "\<forall>j<n. m j = None"
proof (cases "\<exists>k<n. m k \<noteq> None")
  case True
  define k where "k = (LEAST k. k < n \<and> m k \<noteq> None)"
  from True have *: "k < n \<and> m k \<noteq> None"
    unfolding k_def by (rule LeastI_ex)
  have "\<forall>j<k. m j = None"
  proof (intro allI impI)
    fix j assume "j < k"
    then have "\<not> (j < n \<and> m j \<noteq> None)"
      unfolding k_def by (rule not_less_Least)
    with \<open>j < k\<close> * show "m j = None" by simp
  qed
  with * found show ?thesis by blast
next
  case False
  with none show ?thesis by blast
qed


lemma listing_calls_steps [simp]:
  "listing_calls (concat (replicate k [Sleep 3, Get u h])) = k"
  by (induction k) simp_all

lemma listing_calls_steps_script [simp]:
  "listing_calls (concat (map (\<lambda>a. [Sleep 3, Get u h, Print (Msg_attempt (Suc a))]) as)) = length as"
  by (induction as) simp_all

lemma take_upt_8: "k < 8 \<Longrightarrow> take k [0..<8] = [0..<k]"
  by (simp add: take_upt)

lemma fetch_report_id_found:
  assumes "k < 8"
    and "\<forall>j<k. listing_match e (reports_url_of ws) hs rn (listing_calls tr + j) = None"
    and "listing_match e (reports_url_of ws) hs rn (listing_calls tr + k) = Some i"
  shows "fetch_report_id e hs ws rn tr =
           (Some i, tr @ concat (replicate (Suc k) [Sleep 3, Get (reports_url_of ws) hs]))"
    and "fetch_report_id_script e hs ws rn tr =
           (Some i, tr @ concat (map (\<lambda>a. [Sleep 3, Get (reports_url_of ws) hs,
                                             Print (Msg_attempt (Suc a))]) [0..<k])
                      @ [Sleep 3, Get (reports_url_of ws) hs])"
proof -
  from assms(1) have len: "k < length [0..<8]" by simp
  show "fetch_report_id e hs ws rn tr =
           (Some i, tr @ concat (replicate (Suc k) [Sleep 3, Get (reports_url_of ws) hs]))"
    unfolding fetch_report_id_def by (rule poll_found [OF len assms(2) assms(3)])
  show "fetch_report_id_script e hs ws rn tr =
           (Some i, tr @ concat (map (\<lambda>a. [Sleep 3, Get (reports_url_of ws) hs,
                                             Print (Msg_attempt (Suc a))]) [0..<k])
                      @ [Sleep 3, Get (reports_url_of ws) hs])"
    unfolding fetch_report_id_script_def
    using poll_script_found [OF len assms(2) assms(3)] assms(1) by (simp only: take_upt_8)
qed

lemma fetch_report_id_exhausted:
  assumes "\<forall>j<8. listing_match e (reports_url_of ws) hs rn (listing_calls tr + j) = None"
  shows "fetch_report_id e hs ws rn tr =
           (None, tr @ concat (replicate 8 [Sleep 3, Get (reports_url_of ws) hs]))"
    and "fetch_report_id_script e hs ws rn tr =
           (None, tr @ concat (map (\<lambda>a. [Sleep 3, Get (reports_url_of ws) hs,
                                           Print (Msg_attempt (Suc a))]) [0..<8]))"
proof -
  from assms
  have all: "\<forall>j<length [0..<8]. listing_match e (reports_url_of ws) hs rn (listing_calls tr + j) = None"
    by simp
  show "fetch_report_id e hs ws rn tr =
           (None, tr @ concat (replicate 8 [Sleep 3, Get (reports_url_of ws) hs]))"
    unfolding fetch_report_id_def using poll_exhausted [OF all] by simp
  show "fetch_report_id_script e hs ws rn tr =
           (None, tr @ concat (map (\<lambda>a. [Sleep 3, Get (reports_url_of ws) hs,
                                           Print (Msg_attempt (Suc a))]) [0..<8]))"
    unfolding fetch_report_id_script_def by (rule poll_script_exhausted [OF all])
qed

text \<open>The number of listing calls of one confirmation, in both programs.\<close>

lemma fetch_report_id_calls:
  obtains (found) k i where "k < 8"
      "\<forall>j<k. listing_match e (reports_url_of ws) hs rn (listing_calls tr + j) = None"
      "listing_match e (reports_url_of ws) hs rn (listing_calls tr + k) = Some i"
      "fst (fetch_report_id e hs ws rn tr) = Some i"
      "fst (fetch_report_id_script e hs ws rn tr) = Some i"
      "listing_calls (snd (fetch_report_id e hs ws rn tr)) = listing_calls tr + Suc k"
      "listing_calls (snd (fetch_report_id_script e hs ws rn tr)) = listing_calls tr + Suc k"
    | (none) "\<forall>j<8. listing_match e (reports_url_of ws) hs rn (listing_calls tr + j) = None"
      "fst (fetch_report_id e hs ws rn tr) = None"
      "fst (fetch_report_id_script e hs ws rn tr) = None"
      "listing_calls (snd (fetch_report_id e hs ws rn tr)) = listing_calls tr + 8"
      "listing_calls (snd (fetch_report_id_script e hs ws rn tr)) = listing_calls tr + 8"
proof (cases rule: first_match_cases
    [of 8 "\<lambda>j. listing_match e (reports_url_of ws) hs rn (listing_calls tr + j)"])
  case (found k i)
  note f = fetch_report_id_found [OF found]
  show ?thesis
    by (rule that(1) [OF found]) (simp_all add: f)
next
  case none
  note f = fetch_report_id_exhausted [OF none]
  show ?thesis
    by (rule that(2) [OF none]) (simp_all add: f)
qed


section \<open>Confirmation\<close>


lemma world_late_matches:
  "listing_match world_late u hs ''SALES'' n = (if n < 2 then None else Some ''r1'')"
  by (simp add: listing_match_def world_late_def failed_listing_def sales_listing_def
      lower_def lower_char_def)



lemma slept_append [simp]: "slept (xs @ ys) = slept xs + slept ys"
  by (induction xs rule: slept.induct) simp_all

lemma slept_steps [simp]: "slept (concat (replicate k [Sleep 3, Get u h])) = 3 * k"
  by (induction k) simp_all

lemma slept_steps_script [simp]:
  "slept (concat (map (\<lambda>a. [Sleep 3, Get u h, Print (Msg_attempt (Suc a))]) as)) = 3 * length as"
  by (induction as) simp_all

lemma delay_before_step:
  assumes "delay_before_each_get xs"
  shows "delay_before_each_get (xs @ [Sleep 3, Get u h])"
proof (intro allI impI)
  fix pre u' h' post
  assume eq: "xs @ [Sleep 3, Get u h] = pre @ Get u' h' # post"
  show "\<exists>pre'. pre = pre' @ [Sleep 3]"
  proof (cases post rule: rev_cases)
    case Nil
    with eq have "(xs @ [Sleep 3]) @ [Get u h] = pre @ [Get u' h']" by simp
    then have "pre = xs @ [Sleep 3]" by (simp only: append1_eq_conv)
    then show ?thesis by blast
  next
    case (snoc post1 z)
    with eq have "(xs @ [Sleep 3]) @ [Get u h] = (pre @ Get u' h' # post1) @ [z]" by simp
    then have eq1: "xs @ [Sleep 3] = pre @ Get u' h' # post1" by (simp only: append1_eq_conv)
    show ?thesis
    proof (cases post1 rule: rev_cases)
      case Nil
      with eq1 have "xs @ [Sleep 3] = pre @ [Get u' h']" by simp
      then have False by simp
      then show ?thesis ..
    next
      case (snoc post2 z')
      with eq1 have "xs @ [Sleep 3] = (pre @ Get u' h' # post2) @ [z']" by simp
      then have "xs = pre @ Get u' h' # post2" by (simp only: append1_eq_conv)
      with assms show ?thesis by blast
    qed
  qed
qed

lemma delay_before_print:
  assumes "delay_before_each_get xs"
  shows "delay_before_each_get (xs @ [Print m])"
proof (intro allI impI)
  fix pre u' h' post
  assume eq: "xs @ [Print m] = pre @ Get u' h' # post"
  show "\<exists>pre'. pre = pre' @ [Sleep 3]"
  proof (cases post rule: rev_cases)
    case Nil
    with eq have "xs @ [Print m] = pre @ [Get u' h']" by simp
    then have False by simp
    then show ?thesis ..
  next
    case (snoc post1 z)
    with eq have "xs @ [Print m] = (pre @ Get u' h' # post1) @ [z]" by simp
    then have "xs = pre @ Get u' h' # post1" by (simp only: append1_eq_conv)
    with assms show ?thesis by blast
  qed
qed

lemma delay_before_steps:
  "delay_before_each_get (concat (replicate k [Sleep 3, Get u h]))"
proof (induction k)
  case 0
  show ?case by simp
next
  case (Suc k)
  have "concat (replicate (Suc k) [Sleep 3, Get u h])
      = concat (replicate k [Sleep 3, Get u h]) @ [Sleep 3, Get u h]"
  proof -
    have "replicate (Suc k) [Sleep 3, Get u h]
        = replicate k [Sleep 3, Get u h] @ [[Sleep 3, Get u h]]"
      by (simp add: replicate_append_same)
    then show ?thesis by (simp only: concat_append) simp
  qed
  with delay_before_step [OF Suc.IH] show ?case by (simp only:)
qed

lemma delay_before_steps_script:
  "delay_before_each_get
     (concat (map (\<lambda>a. [Sleep 3, Get u h, Print (Msg_attempt (Suc a))]) as))"
proof (induction as rule: rev_induct)
  case Nil
  show ?case by simp
next
  case (snoc a as)
  let ?xs = "concat (map (\<lambda>a. [Sleep 3, Get u h, Print (Msg_attempt (Suc a))]) as)"
  have eq: "concat (map (\<lambda>a. [Sleep 3, Get u h, Print (Msg_attempt (Suc a))]) (as @ [a]))
      = (?xs @ [Sleep 3, Get u h]) @ [Print (Msg_attempt (Suc a))]"
    by simp
  have "delay_before_each_get ((?xs @ [Sleep 3, Get u h]) @ [Print (Msg_attempt (Suc a))])"
    by (rule delay_before_print [OF delay_before_step [OF snoc.IH]])
  with eq show ?case by (simp only:)
qed

text \<open>
  C9. In both programs \<^verbatim>\<open>fetch_report_id\<close> sleeps before every listing call, the first
  included: what it does starts with \<^verbatim>\<open>sleep(3)\<close> followed by the first listing call, every
  listing call comes right after a sleep of 3, the time slept is 3 for each listing call,
  and so it is never less than 3.
\<close>

theorem fetch_report_id_sleeps_first:
  "(\<exists>evs. snd (fetch_report_id e hs ws rn tr) = tr @ evs
        \<and> take 2 evs = [Sleep 3, Get (reports_url_of ws) hs]
        \<and> delay_before_each_get evs
        \<and> slept evs = 3 * listing_calls evs \<and> 3 \<le> slept evs)
   \<and> (\<exists>evs. snd (fetch_report_id_script e hs ws rn tr) = tr @ evs
        \<and> take 2 evs = [Sleep 3, Get (reports_url_of ws) hs]
        \<and> delay_before_each_get evs
        \<and> slept evs = 3 * listing_calls evs \<and> 3 \<le> slept evs)"
proof (cases rule: first_match_cases
    [of 8 "\<lambda>j. listing_match e (reports_url_of ws) hs rn (listing_calls tr + j)"])
  case (found k i)
  let ?step = "[Sleep 3, Get (reports_url_of ws) hs]"
  let ?evs = "concat (replicate (Suc k) ?step)"
  let ?pre = "concat (map (\<lambda>a. [Sleep 3, Get (reports_url_of ws) hs,
                                  Print (Msg_attempt (Suc a))]) [0..<k])"
  note f = fetch_report_id_found [OF found]
  have m: "snd (fetch_report_id e hs ws rn tr) = tr @ ?evs
        \<and> take 2 ?evs = ?step \<and> delay_before_each_get ?evs
        \<and> slept ?evs = 3 * listing_calls ?evs \<and> 3 \<le> slept ?evs"
    using delay_before_steps [of "Suc k"] by (simp add: f)
  have first: "take 2 (?pre @ ?step) = ?step"
  proof (cases k)
    case 0
    then show ?thesis by simp
  next
    case (Suc k')
    then show ?thesis by (simp add: upt_rec [of 0])
  qed
  have s: "snd (fetch_report_id_script e hs ws rn tr) = tr @ (?pre @ ?step)
        \<and> take 2 (?pre @ ?step) = ?step \<and> delay_before_each_get (?pre @ ?step)
        \<and> slept (?pre @ ?step) = 3 * listing_calls (?pre @ ?step) \<and> 3 \<le> slept (?pre @ ?step)"
    using delay_before_step [OF delay_before_steps_script, of _ _ "[0..<k]"] first
    by (simp add: f)
  from m s show ?thesis by blast
next
  case none
  let ?step = "[Sleep 3, Get (reports_url_of ws) hs]"
  let ?evs = "concat (replicate 8 ?step)"
  let ?evs' = "concat (map (\<lambda>a. [Sleep 3, Get (reports_url_of ws) hs,
                                  Print (Msg_attempt (Suc a))]) [0..<8])"
  note f = fetch_report_id_exhausted [OF none]
  have m: "snd (fetch_report_id e hs ws rn tr) = tr @ ?evs
        \<and> take 2 ?evs = ?step \<and> delay_before_each_get ?evs
        \<and> slept ?evs = 3 * listing_calls ?evs \<and> 3 \<le> slept ?evs"
    using delay_before_steps [of 8] by (simp add: f numeral_eq_Suc)
  have s: "snd (fetch_report_id_script e hs ws rn tr) = tr @ ?evs'
        \<and> take 2 ?evs' = ?step \<and> delay_before_each_get ?evs'
        \<and> slept ?evs' = 3 * listing_calls ?evs' \<and> 3 \<le> slept ?evs'"
    using delay_before_steps_script [of _ _ "[0..<8]"] by (simp add: f upt_rec [of 0])
  from m s show ?thesis by blast
qed


lemma world_late_fetch:
  "fetch_report_id world_late (bearer ''tok'') ''W1'' ''SALES'' [] =
     (Some ''r1'', [Sleep 3, Get (reports_url_of ''W1'') (bearer ''tok''),
                    Sleep 3, Get (reports_url_of ''W1'') (bearer ''tok''),
                    Sleep 3, Get (reports_url_of ''W1'') (bearer ''tok'')])"
proof -
  have "fetch_report_id world_late (bearer ''tok'') ''W1'' ''SALES'' [] =
      (Some ''r1'', [] @ concat (replicate (Suc 2) [Sleep 3, Get (reports_url_of ''W1'') (bearer ''tok'')]))"
    by (rule fetch_report_id_found(1)) (simp_all add: world_late_matches)
  then show ?thesis by (simp add: numeral_2_eq_2)
qed

theorem fetch_report_id_sleeps_first_witness:
  "take 2 (snd (fetch_report_id world_late (bearer ''tok'') ''W1'' ''SALES'' []))
     = [Sleep 3, Get (reports_url_of ''W1'') (bearer ''tok'')]
   \<and> (\<exists>pre'. [Sleep 3, Get (reports_url_of ''W1'') (bearer ''tok''),
               Sleep 3, Get (reports_url_of ''W1'') (bearer ''tok''), Sleep 3] = pre' @ [Sleep 3])
   \<and> slept (snd (fetch_report_id world_late (bearer ''tok'') ''W1'' ''SALES'' [])) = 9"
proof -
  let ?g = "Get (reports_url_of ''W1'') (bearer ''tok'')"
  from fetch_report_id_sleeps_first [of world_late "bearer ''tok''" "''W1''" "''SALES''" "[]"]
  obtain evs where evs: "snd (fetch_report_id world_late (bearer ''tok'') ''W1'' ''SALES'' []) = [] @ evs"
      and first: "take 2 evs = [Sleep 3, ?g]"
      and delay: "delay_before_each_get evs"
      and time: "slept evs = 3 * listing_calls evs"
    by blast
  from evs world_late_fetch have e: "evs = [Sleep 3, ?g, Sleep 3, ?g, Sleep 3] @ ?g # []"
    by simp
  from delay e have "\<exists>pre'. [Sleep 3, ?g, Sleep 3, ?g, Sleep 3] = pre' @ [Sleep 3]"
    by blast
  moreover from first evs
  have "take 2 (snd (fetch_report_id world_late (bearer ''tok'') ''W1'' ''SALES'' [])) = [Sleep 3, ?g]"
    by simp
  moreover from time evs e
  have "slept (snd (fetch_report_id world_late (bearer ''tok'') ''W1'' ''SALES'' [])) = 9"
    by simp
  ultimately show ?thesis by simp
qed

lemma listing_match_failures_as_empty:
  "listing_match (failures_as_empty e) url hs rn n = listing_match e url hs rn n"
  by (simp add: listing_match_def failures_as_empty_def nothing_listed_def Let_def)

lemma poll_failures_as_empty:
  "poll (failures_as_empty e) url hs rn as tr = poll e url hs rn as tr"
proof (induction as arbitrary: tr)
  case Nil
  show ?case by simp
next
  case (Cons a as)
  then show ?case
    by (simp only: poll_Cons listing_match_failures_as_empty)
qed

lemma poll_script_failures_as_empty:
  "poll_script (failures_as_empty e) url hs rn as tr = poll_script e url hs rn as tr"
proof (induction as arbitrary: tr)
  case Nil
  show ?case by simp
next
  case (Cons a as)
  then show ?case
    by (simp only: poll_script_Cons listing_match_failures_as_empty)
qed

lemma listing_match_not_ok:
  "\<not> ok (get_reply e n url hs) \<Longrightarrow> listing_match e url hs rn n = None"
  by (simp add: listing_match_def)

text \<open>
  C4. In both programs a listing call that is answered by a non-success response counts as
  "not found yet": the confirmation runs exactly as it would had the call been answered
  successfully with nothing listed. After such an attempt, when no earlier attempt found
  the report, the loop goes on to the next attempt unless the failed one was the eighth.
  The function returns \<open>None\<close> only after eight listing calls.
\<close>

theorem listing_failure_counts_as_not_found:
  "fetch_report_id (failures_as_empty e) hs ws rn tr = fetch_report_id e hs ws rn tr
   \<and> fetch_report_id_script (failures_as_empty e) hs ws rn tr
       = fetch_report_id_script e hs ws rn tr
   \<and> (\<forall>k<8. \<not> ok (get_reply e (listing_calls tr + k) (reports_url_of ws) hs)
        \<and> (\<forall>j<k. listing_match e (reports_url_of ws) hs rn (listing_calls tr + j) = None) \<longrightarrow>
          listing_calls tr + min 8 (k + 2) \<le> listing_calls (snd (fetch_report_id e hs ws rn tr))
          \<and> listing_calls tr + min 8 (k + 2)
              \<le> listing_calls (snd (fetch_report_id_script e hs ws rn tr)))
   \<and> (fst (fetch_report_id e hs ws rn tr) = None \<longrightarrow>
        listing_calls (snd (fetch_report_id e hs ws rn tr)) = listing_calls tr + 8)
   \<and> (fst (fetch_report_id_script e hs ws rn tr) = None \<longrightarrow>
        listing_calls (snd (fetch_report_id_script e hs ws rn tr)) = listing_calls tr + 8)"
proof -
  have same: "fetch_report_id (failures_as_empty e) hs ws rn tr = fetch_report_id e hs ws rn tr"
    by (simp only: fetch_report_id_def poll_failures_as_empty)
  have same_script: "fetch_report_id_script (failures_as_empty e) hs ws rn tr
       = fetch_report_id_script e hs ws rn tr"
    by (simp only: fetch_report_id_script_def poll_script_failures_as_empty)
  have goes_on: "\<forall>k<8. \<not> ok (get_reply e (listing_calls tr + k) (reports_url_of ws) hs)
        \<and> (\<forall>j<k. listing_match e (reports_url_of ws) hs rn (listing_calls tr + j) = None) \<longrightarrow>
          listing_calls tr + min 8 (k + 2) \<le> listing_calls (snd (fetch_report_id e hs ws rn tr))
          \<and> listing_calls tr + min 8 (k + 2)
              \<le> listing_calls (snd (fetch_report_id_script e hs ws rn tr))"
  proof (intro allI impI, elim conjE)
    fix k :: nat
    assume k: "k < 8"
      and fail: "\<not> ok (get_reply e (listing_calls tr + k) (reports_url_of ws) hs)"
      and before: "\<forall>j<k. listing_match e (reports_url_of ws) hs rn (listing_calls tr + j) = None"
    from fail have nk: "listing_match e (reports_url_of ws) hs rn (listing_calls tr + k) = None"
      by (rule listing_match_not_ok)
    show "listing_calls tr + min 8 (k + 2) \<le> listing_calls (snd (fetch_report_id e hs ws rn tr))
          \<and> listing_calls tr + min 8 (k + 2)
              \<le> listing_calls (snd (fetch_report_id_script e hs ws rn tr))"
    proof (cases rule: fetch_report_id_calls [of e ws hs rn tr])
      case (found k' i)
      from found(3) nk have "k' \<noteq> k" by auto
      moreover from found(3) before have "\<not> k' < k" by auto
      ultimately have "k < k'" by simp
      with found(6,7) show ?thesis by simp
    next
      case none
      then show ?thesis by simp
    qed
  qed
  have only_exhausted: "fst (fetch_report_id e hs ws rn tr) = None \<longrightarrow>
        listing_calls (snd (fetch_report_id e hs ws rn tr)) = listing_calls tr + 8"
    by (cases rule: fetch_report_id_calls [of e ws hs rn tr]) simp_all
  have only_exhausted_script: "fst (fetch_report_id_script e hs ws rn tr) = None \<longrightarrow>
        listing_calls (snd (fetch_report_id_script e hs ws rn tr)) = listing_calls tr + 8"
    by (cases rule: fetch_report_id_calls [of e ws hs rn tr]) simp_all
  show ?thesis
    by (rule conjI [OF same conjI [OF same_script conjI [OF goes_on
          conjI [OF only_exhausted only_exhausted_script]]]])
qed

lemma world_never_matches:
  "listing_match world_never u hs ''SALES'' n = None"
  by (simp add: listing_match_def world_never_def world_late_def failed_listing_def
      lower_def lower_char_def)

theorem listing_failure_counts_as_not_found_witness:
  "\<not> ok (get_reply world_late 1 (reports_url_of ''W1'') (bearer ''tok''))
   \<and> 3 \<le> listing_calls (snd (fetch_report_id world_late (bearer ''tok'') ''W1'' ''SALES'' []))
   \<and> 3 \<le> listing_calls (snd (fetch_report_id_script world_late (bearer ''tok'') ''W1'' ''SALES'' []))
   \<and> fst (fetch_report_id world_never (bearer ''tok'') ''W1'' ''SALES'' []) = None
   \<and> listing_calls (snd (fetch_report_id world_never (bearer ''tok'') ''W1'' ''SALES'' [])) = 8"
proof -
  have fail: "\<not> ok (get_reply world_late (listing_calls [] + 1) (reports_url_of ''W1'') (bearer ''tok''))
      \<and> (\<forall>j<1. listing_match world_late (reports_url_of ''W1'') (bearer ''tok'') ''SALES''
                  (listing_calls [] + j) = None)"
    by (simp add: world_late_matches) (simp add: world_late_def failed_listing_def)
  have none: "fst (fetch_report_id world_never (bearer ''tok'') ''W1'' ''SALES'' []) = None"
    by (simp add: fetch_report_id_exhausted(1) world_never_matches)
  note late = listing_failure_counts_as_not_found
    [of world_late "bearer ''tok''" "''W1''" "''SALES''" "[]"]
  note never = listing_failure_counts_as_not_found
    [of world_never "bearer ''tok''" "''W1''" "''SALES''" "[]"]
  from late fail
  have "listing_calls [] + min 8 (1 + 2)
          \<le> listing_calls (snd (fetch_report_id world_late (bearer ''tok'') ''W1'' ''SALES'' []))
      \<and> listing_calls [] + min 8 (1 + 2)
          \<le> listing_calls (snd (fetch_report_id_script world_late (bearer ''tok'') ''W1'' ''SALES'' []))"
    by (metis one_less_numeral_iff semiring_norm(76))
  moreover from never none
  have "listing_calls (snd (fetch_report_id world_never (bearer ''tok'') ''W1'' ''SALES'' []))
      = listing_calls [] + 8"
    by blast
  ultimately show ?thesis using fail none by simp
qed


section \<open>Matching a report name\<close>






section \<open>The two runs\<close>

text \<open>The stages of \<^verbatim>\<open>upload_report\<close> of \<^verbatim>\<open>main.py\<close>, one lemma for each way out.\<close>

lemma upload_report_no_token:
  assumes "token_result e ''access_token'' = None"
  shows "upload_report e body tr =
    (Inl (HTTPException 500 (''Token error: '' @ format_get (token_result e ''error_description''))),
     tr @ [Acquire_token])"
  using assms by (simp add: upload_report_def get_access_token_def)

lemma upload_report_no_blob:
  assumes "token_result e ''access_token'' = Some tok" and "blob_result e = Inl str_e"
  shows "upload_report e body tr =
    (Inl (HTTPException 500 (''Blob download failed: '' @ str_e)),
     tr @ [Acquire_token, Download_blob])"
  using assms by (simp add: upload_report_def get_access_token_def download_empty_pbix_def)

lemma upload_report_rejected:
  assumes "token_result e ''access_token'' = Some tok" and "blob_result e = Inr b"
    and "status_code (post_reply e (upload_url_of (workspace_id body) (report_name body))
           (bearer tok) (pbix_file (report_name body) b)) \<notin> {200, 201, 202}"
  shows "upload_report e body tr =
    (Inl (HTTPException
       (status_code (post_reply e (upload_url_of (workspace_id body) (report_name body))
           (bearer tok) (pbix_file (report_name body) b)))
       (text' (post_reply e (upload_url_of (workspace_id body) (report_name body))
           (bearer tok) (pbix_file (report_name body) b)))),
     tr @ [Acquire_token, Download_blob,
           Post (upload_url_of (workspace_id body) (report_name body)) (bearer tok)
             (pbix_file (report_name body) b)])"
  using assms
  by (simp add: upload_report_def get_access_token_def download_empty_pbix_def Let_def)

lemma upload_report_accepted:
  assumes "token_result e ''access_token'' = Some tok" and "blob_result e = Inr b"
    and "status_code (post_reply e (upload_url_of (workspace_id body) (report_name body))
           (bearer tok) (pbix_file (report_name body) b)) \<in> {200, 201, 202}"
    and "fetch_report_id e (bearer tok) (workspace_id body) (report_name body)
           (tr @ [Acquire_token, Download_blob,
                  Post (upload_url_of (workspace_id body) (report_name body)) (bearer tok)
                    (pbix_file (report_name body) b)]) = (rid, tr')"
  shows "upload_report e body tr =
    (Inr \<lparr>message = (if truthy rid then ''Report uploaded successfully''
                      else ''Upload accepted but report ID not yet confirmed''),
          resp_workspace_id = workspace_id body, resp_report_name = report_name body,
          report_id = rid\<rparr>, tr')"
  using assms
  by (simp add: upload_report_def get_access_token_def download_empty_pbix_def Let_def)

text \<open>The stages of \<^verbatim>\<open>main\<close> of \<^verbatim>\<open>upload_report.py\<close>.\<close>

lemma upload_to_workspace_script_rejected:
  assumes "status_code (post_reply e (upload_url_of ws rn) (bearer tok) (pbix_file rn b))
             \<notin> {200, 201, 202}"
  shows "upload_to_workspace_script e tok ws rn b tr =
    (Inl (SystemExit 1),
     tr @ [Print (Msg_uploading rn ws), Post (upload_url_of ws rn) (bearer tok) (pbix_file rn b),
           Print (Msg_upload_failed
             (status_code (post_reply e (upload_url_of ws rn) (bearer tok) (pbix_file rn b)))
             (text' (post_reply e (upload_url_of ws rn) (bearer tok) (pbix_file rn b))))])"
  using assms by (simp add: upload_to_workspace_script_def Let_def)

lemma upload_to_workspace_script_accepted:
  assumes "status_code (post_reply e (upload_url_of ws rn) (bearer tok) (pbix_file rn b))
             \<in> {200, 201, 202}"
  shows "upload_to_workspace_script e tok ws rn b tr =
    (Inr (bearer tok),
     tr @ [Print (Msg_uploading rn ws), Post (upload_url_of ws rn) (bearer tok) (pbix_file rn b),
           Print (Msg_upload_accepted
             (status_code (post_reply e (upload_url_of ws rn) (bearer tok) (pbix_file rn b))))])"
  using assms by (simp add: upload_to_workspace_script_def Let_def)

lemma main_script_no_token:
  assumes "filter (\<lambda>v. \<not> truthy (getenv e v)) required_env = []"
    and "token_result e ''access_token'' = None"
  shows "main_script e a tr =
    (Inl (SystemExit 1),
     tr @ [Acquire_token, Print (Msg_token_error (token_result e ''error_description''))])"
  using assms by (simp add: main_script_def get_access_token_script_def)

lemma main_script_no_blob:
  assumes "filter (\<lambda>v. \<not> truthy (getenv e v)) required_env = []"
    and "token_result e ''access_token'' = Some tok" and "blob_result e = Inl str_e"
  shows "main_script e a tr =
    (Inl (StoreException str_e), tr @ [Acquire_token, Print Msg_token_acquired, Download_blob])"
  using assms
  by (simp add: main_script_def get_access_token_script_def download_empty_pbix_script_def)

lemma main_script_rejected:
  assumes "filter (\<lambda>v. \<not> truthy (getenv e v)) required_env = []"
    and "token_result e ''access_token'' = Some tok" and "blob_result e = Inr b"
    and "status_code (post_reply e (upload_url_of (arg_workspace_id a) (arg_report_name a))
           (bearer tok) (pbix_file (arg_report_name a) b)) \<notin> {200, 201, 202}"
  shows "main_script e a tr =
    (Inl (SystemExit 1),
     tr @ [Acquire_token, Print Msg_token_acquired, Download_blob,
           Print (Msg_downloaded (getenv e ''EMPTY_PBIX_NAME'') (length b)),
           Print (Msg_uploading (arg_report_name a) (arg_workspace_id a)),
           Post (upload_url_of (arg_workspace_id a) (arg_report_name a)) (bearer tok)
             (pbix_file (arg_report_name a) b),
           Print (Msg_upload_failed
             (status_code (post_reply e (upload_url_of (arg_workspace_id a) (arg_report_name a))
                (bearer tok) (pbix_file (arg_report_name a) b)))
             (text' (post_reply e (upload_url_of (arg_workspace_id a) (arg_report_name a))
                (bearer tok) (pbix_file (arg_report_name a) b))))])"
  using assms(1-3) upload_to_workspace_script_rejected [OF assms(4)]
  by (simp add: main_script_def get_access_token_script_def download_empty_pbix_script_def)

lemma main_script_accepted:
  assumes "filter (\<lambda>v. \<not> truthy (getenv e v)) required_env = []"
    and "token_result e ''access_token'' = Some tok" and "blob_result e = Inr b"
    and "status_code (post_reply e (upload_url_of (arg_workspace_id a) (arg_report_name a))
           (bearer tok) (pbix_file (arg_report_name a) b)) \<in> {200, 201, 202}"
    and "fetch_report_id_script e (bearer tok) (arg_workspace_id a) (arg_report_name a)
           (tr @ [Acquire_token, Print Msg_token_acquired, Download_blob,
                  Print (Msg_downloaded (getenv e ''EMPTY_PBIX_NAME'') (length b)),
                  Print (Msg_uploading (arg_report_name a) (arg_workspace_id a)),
                  Post (upload_url_of (arg_workspace_id a) (arg_report_name a)) (bearer tok)
                    (pbix_file (arg_report_name a) b),
                  Print (Msg_upload_accepted
                    (status_code (post_reply e
                       (upload_url_of (arg_workspace_id a) (arg_report_name a))
                       (bearer tok) (pbix_file (arg_report_name a) b))))]) = (rid, tr')"
  shows "main_script e a tr =
    (Inr (),
     tr' @ (if truthy rid
            then [Print Msg_success, Print (Msg_report_name (arg_report_name a)),
                  Print (Msg_report_id (format_get rid)),
                  Print (Msg_workspace_id (arg_workspace_id a))]
            else [Print Msg_unconfirmed, Print (Msg_check_workspace (arg_workspace_id a))]))"
  using assms(1-3,5) upload_to_workspace_script_accepted [OF assms(4)]
  by (simp add: main_script_def get_access_token_script_def download_empty_pbix_script_def)

lemma world_late_env: "filter (\<lambda>v. \<not> truthy (getenv world_late v)) required_env = []"
  by (simp add: world_late_def required_env_def)


lemma poll_posts:
  "filter is_Post (snd (poll e url hs rn as tr)) = filter is_Post tr"
proof (induction as arbitrary: tr)
  case Nil
  show ?case by simp
next
  case (Cons a as)
  show ?case
    by (cases "listing_match e url hs rn (listing_calls tr)")
       (simp_all add: poll_Cons Cons.IH del: poll.simps)
qed

lemma poll_script_posts:
  "filter is_Post (snd (poll_script e url hs rn as tr)) = filter is_Post tr"
proof (induction as arbitrary: tr)
  case Nil
  show ?case by simp
next
  case (Cons a as)
  show ?case
    by (cases "listing_match e url hs rn (listing_calls tr)")
       (simp_all add: poll_script_Cons Cons.IH del: poll_script.simps)
qed

section \<open>Upload\<close>

text \<open>
  C1. The upload issues exactly one POST, to
  \<^verbatim>\<open>{API}/groups/{workspaceId}/imports?datasetDisplayName={reportName}&nameConflict=CreateOrOverwrite\<close>,
  with the bearer token as \<^verbatim>\<open>Authorization\<close> header and a \<^verbatim>\<open>files\<close> dict of one field,
  \<^verbatim>\<open>file\<close>, whose filename is \<^verbatim>\<open>{reportName}.pbix\<close>, whose content is the artifact and
  whose content type is \<^verbatim>\<open>application/vnd.ms-powerbi.pbix\<close>: for every token, workspace
  id, report name and artifact in \<^verbatim>\<open>upload_to_workspace\<close> of \<^verbatim>\<open>upload_report.py\<close>, and in
  every run of \<^verbatim>\<open>upload_report\<close> of \<^verbatim>\<open>main.py\<close> and of \<^verbatim>\<open>main\<close> of \<^verbatim>\<open>upload_report.py\<close>
  that gets a token and the artifact, whether the import is then accepted or not.
\<close>

theorem upload_posts_once:
  "filter is_Post (snd (upload_to_workspace_script e tok ws rn b tr)) =
     filter is_Post tr @
     [Post (POWERBI_API @ ''/groups/'' @ ws @ ''/imports?datasetDisplayName='' @ rn
              @ ''&nameConflict=CreateOrOverwrite'')
        [(''Authorization'', ''Bearer '' @ tok)]
        [(''file'', (rn @ ''.pbix'', b, ''application/vnd.ms-powerbi.pbix''))]]
   \<and> (token_result e ''access_token'' = Some tok \<and> blob_result e = Inr b \<longrightarrow>
        filter is_Post (snd (upload_report e \<lparr>workspace_id = ws, report_name = rn\<rparr> tr)) =
          filter is_Post tr @
          [Post (POWERBI_API @ ''/groups/'' @ ws @ ''/imports?datasetDisplayName='' @ rn
                   @ ''&nameConflict=CreateOrOverwrite'')
             [(''Authorization'', ''Bearer '' @ tok)]
             [(''file'', (rn @ ''.pbix'', b, ''application/vnd.ms-powerbi.pbix''))]])
   \<and> (filter (\<lambda>v. \<not> truthy (getenv e v)) required_env = []
        \<and> token_result e ''access_token'' = Some tok \<and> blob_result e = Inr b \<longrightarrow>
        filter is_Post (snd (main_script e \<lparr>arg_workspace_id = ws, arg_report_name = rn\<rparr> tr)) =
          filter is_Post tr @
          [Post (POWERBI_API @ ''/groups/'' @ ws @ ''/imports?datasetDisplayName='' @ rn
                   @ ''&nameConflict=CreateOrOverwrite'')
             [(''Authorization'', ''Bearer '' @ tok)]
             [(''file'', (rn @ ''.pbix'', b, ''application/vnd.ms-powerbi.pbix''))]])"
proof -
  let ?resp = "post_reply e (upload_url_of ws rn) (bearer tok) (pbix_file rn b)"
  let ?post = "Post (upload_url_of ws rn) (bearer tok) (pbix_file rn b)"
  let ?body = "\<lparr>workspace_id = ws, report_name = rn\<rparr>"
  let ?args = "\<lparr>arg_workspace_id = ws, arg_report_name = rn\<rparr>"
  have script: "filter is_Post (snd (upload_to_workspace_script e tok ws rn b tr))
      = filter is_Post tr @ [?post]"
    by (simp add: upload_to_workspace_script_def Let_def)
  have run: "filter is_Post (snd (upload_report e ?body tr)) = filter is_Post tr @ [?post]"
    if tok: "token_result e ''access_token'' = Some tok" and blob: "blob_result e = Inr b"
  proof (cases "status_code ?resp \<in> {200, 201, 202}")
    case True
    let ?tr = "tr @ [Acquire_token, Download_blob, ?post]"
    obtain rid tr' where f: "fetch_report_id e (bearer tok) ws rn ?tr = (rid, tr')"
      by (cases "fetch_report_id e (bearer tok) ws rn ?tr")
    then have "tr' = snd (poll e (reports_url_of ws) (bearer tok) rn [0..<8] ?tr)"
      by (simp add: fetch_report_id_def)
    then have "filter is_Post tr' = filter is_Post ?tr"
      by (simp only: poll_posts)
    with upload_report_accepted [of e tok b ?body tr rid tr'] tok blob True f
    show ?thesis by simp
  next
    case False
    with upload_report_rejected [of e tok b ?body tr] tok blob show ?thesis by simp
  qed
  have run_script: "filter is_Post (snd (main_script e ?args tr)) = filter is_Post tr @ [?post]"
    if env: "filter (\<lambda>v. \<not> truthy (getenv e v)) required_env = []"
      and tok: "token_result e ''access_token'' = Some tok" and blob: "blob_result e = Inr b"
  proof (cases "status_code ?resp \<in> {200, 201, 202}")
    case True
    let ?tr = "tr @ [Acquire_token, Print Msg_token_acquired, Download_blob,
                  Print (Msg_downloaded (getenv e ''EMPTY_PBIX_NAME'') (length b)),
                  Print (Msg_uploading rn ws), ?post,
                  Print (Msg_upload_accepted (status_code ?resp))]"
    obtain rid tr' where f: "fetch_report_id_script e (bearer tok) ws rn ?tr = (rid, tr')"
      by (cases "fetch_report_id_script e (bearer tok) ws rn ?tr")
    then have "tr' = snd (poll_script e (reports_url_of ws) (bearer tok) rn [0..<8] ?tr)"
      by (simp add: fetch_report_id_script_def)
    then have "filter is_Post tr' = filter is_Post ?tr"
      by (simp only: poll_script_posts)
    with main_script_accepted [of e tok b ?args tr rid tr'] env tok blob True f
    show ?thesis by simp
  next
    case False
    with main_script_rejected [of e tok b ?args tr] env tok blob show ?thesis by simp
  qed
  from script run run_script show ?thesis by simp
qed

theorem upload_posts_once_witness:
  "token_result world_rejected ''access_token'' = Some ''tok''
   \<and> blob_result world_rejected = Inr [80, 75, 3, 4]
   \<and> filter is_Post (snd (upload_report world_rejected
        \<lparr>workspace_id = ''W1'', report_name = ''Report-X''\<rparr> [])) =
      [Post ''https://api.powerbi.com/v1.0/myorg/groups/W1/imports?datasetDisplayName=Report-X&nameConflict=CreateOrOverwrite''
         [(''Authorization'', ''Bearer tok'')]
         [(''file'', (''Report-X.pbix'', [80, 75, 3, 4], ''application/vnd.ms-powerbi.pbix''))]]"
proof -
  have pre: "token_result world_rejected ''access_token'' = Some ''tok''
      \<and> blob_result world_rejected = Inr [80, 75, 3, 4]"
    by (simp add: world_rejected_def world_late_def)
  with upload_posts_once [of world_rejected "''tok''" "''W1''" "''Report-X''" "[80, 75, 3, 4]" "[]"]
  show ?thesis by (simp add: POWERBI_API_def)
qed


text \<open>
  C2. Once a run has its token and the artifact, it goes on to the confirmation exactly
  when the status code of the import response is 200, 201 or 202. For any other status
  code the run ends at once: \<^verbatim>\<open>main.py\<close> raises \<^verbatim>\<open>HTTPException\<close> with that status code and
  the response text as detail; \<^verbatim>\<open>upload_report.py\<close> prints the status code and the response
  text and exits with code 1. In both the POST is the last request: no sleep and no
  listing call follow a rejection.
\<close>

theorem upload_accepted_iff_2xx:
  assumes "token_result e ''access_token'' = Some tok" and "blob_result e = Inr b"
    and "resp = post_reply e (upload_url_of ws rn) (bearer tok) (pbix_file rn b)"
  shows "((\<exists>r. fst (upload_report e \<lparr>workspace_id = ws, report_name = rn\<rparr> tr) = Inr r)
            = (status_code resp = 200 \<or> status_code resp = 201 \<or> status_code resp = 202))
   \<and> ((\<exists>hs. fst (upload_to_workspace_script e tok ws rn b tr) = Inr hs)
            = (status_code resp = 200 \<or> status_code resp = 201 \<or> status_code resp = 202))
   \<and> (\<not> (status_code resp = 200 \<or> status_code resp = 201 \<or> status_code resp = 202) \<longrightarrow>
        upload_report e \<lparr>workspace_id = ws, report_name = rn\<rparr> tr =
          (Inl (HTTPException (status_code resp) (text' resp)),
           tr @ [Acquire_token, Download_blob,
                 Post (upload_url_of ws rn) (bearer tok) (pbix_file rn b)])
        \<and> upload_to_workspace_script e tok ws rn b tr =
          (Inl (SystemExit 1),
           tr @ [Print (Msg_uploading rn ws),
                 Post (upload_url_of ws rn) (bearer tok) (pbix_file rn b),
                 Print (Msg_upload_failed (status_code resp) (text' resp))])
        \<and> (filter (\<lambda>v. \<not> truthy (getenv e v)) required_env = [] \<longrightarrow>
             main_script e \<lparr>arg_workspace_id = ws, arg_report_name = rn\<rparr> tr =
               (Inl (SystemExit 1),
                tr @ [Acquire_token, Print Msg_token_acquired, Download_blob,
                      Print (Msg_downloaded (getenv e ''EMPTY_PBIX_NAME'') (length b)),
                      Print (Msg_uploading rn ws),
                      Post (upload_url_of ws rn) (bearer tok) (pbix_file rn b),
                      Print (Msg_upload_failed (status_code resp) (text' resp))])))"
proof (cases "status_code resp \<in> {200, 201, 202}")
  case True
  let ?body = "\<lparr>workspace_id = ws, report_name = rn\<rparr>"
  let ?tr = "tr @ [Acquire_token, Download_blob,
                   Post (upload_url_of ws rn) (bearer tok) (pbix_file rn b)]"
  obtain rid tr' where f: "fetch_report_id e (bearer tok) ws rn ?tr = (rid, tr')"
    by (cases "fetch_report_id e (bearer tok) ws rn ?tr")
  from upload_report_accepted [of e tok b ?body tr rid tr'] assms True f
  have "\<exists>r. fst (upload_report e ?body tr) = Inr r" by simp
  moreover from upload_to_workspace_script_accepted [of e ws rn tok b tr] assms(3) True
  have "\<exists>hs. fst (upload_to_workspace_script e tok ws rn b tr) = Inr hs" by simp
  ultimately show ?thesis using True by simp
next
  case False
  let ?body = "\<lparr>workspace_id = ws, report_name = rn\<rparr>"
  let ?args = "\<lparr>arg_workspace_id = ws, arg_report_name = rn\<rparr>"
  from upload_report_rejected [of e tok b ?body tr] assms False
  have m: "upload_report e ?body tr =
          (Inl (HTTPException (status_code resp) (text' resp)),
           tr @ [Acquire_token, Download_blob,
                 Post (upload_url_of ws rn) (bearer tok) (pbix_file rn b)])"
    by simp
  from upload_to_workspace_script_rejected [of e ws rn tok b tr] assms(3) False
  have s: "upload_to_workspace_script e tok ws rn b tr =
          (Inl (SystemExit 1),
           tr @ [Print (Msg_uploading rn ws),
                 Post (upload_url_of ws rn) (bearer tok) (pbix_file rn b),
                 Print (Msg_upload_failed (status_code resp) (text' resp))])"
    by simp
  have r: "main_script e ?args tr =
               (Inl (SystemExit 1),
                tr @ [Acquire_token, Print Msg_token_acquired, Download_blob,
                      Print (Msg_downloaded (getenv e ''EMPTY_PBIX_NAME'') (length b)),
                      Print (Msg_uploading rn ws),
                      Post (upload_url_of ws rn) (bearer tok) (pbix_file rn b),
                      Print (Msg_upload_failed (status_code resp) (text' resp))])"
    if "filter (\<lambda>v. \<not> truthy (getenv e v)) required_env = []"
    using main_script_rejected [of e tok b ?args tr] that assms False by simp
  from False have no: "\<not> (status_code resp = 200 \<or> status_code resp = 201 \<or> status_code resp = 202)"
    by simp
  from m have "\<not> (\<exists>r. fst (upload_report e ?body tr) = Inr r)" by simp
  moreover from s have "\<not> (\<exists>hs. fst (upload_to_workspace_script e tok ws rn b tr) = Inr hs)"
    by simp
  ultimately show ?thesis using no m s r by blast
qed

lemma world_rejected_facts:
  "token_result world_rejected ''access_token'' = Some ''tok''"
  "blob_result world_rejected = Inr [80, 75, 3, 4]"
  "post_reply world_rejected u h f =
     \<lparr>status_code = 400, ok = False, text' = ''Invalid dataset'', json_value = None\<rparr>"
  "filter (\<lambda>v. \<not> truthy (getenv world_rejected v)) required_env = []"
  by (simp_all add: world_rejected_def world_late_def required_env_def)

theorem upload_accepted_iff_2xx_witness:
  "upload_report world_rejected \<lparr>workspace_id = ''W1'', report_name = ''SALES''\<rparr> [] =
     (Inl (HTTPException 400 ''Invalid dataset''),
      [Acquire_token, Download_blob,
       Post (upload_url_of ''W1'' ''SALES'') (bearer ''tok'') (pbix_file ''SALES'' [80, 75, 3, 4])])
   \<and> main_script world_rejected \<lparr>arg_workspace_id = ''W1'', arg_report_name = ''SALES''\<rparr> [] =
     (Inl (SystemExit 1),
      [Acquire_token, Print Msg_token_acquired, Download_blob,
       Print (Msg_downloaded (Some ''set'') 4), Print (Msg_uploading ''SALES'' ''W1''),
       Post (upload_url_of ''W1'' ''SALES'') (bearer ''tok'') (pbix_file ''SALES'' [80, 75, 3, 4]),
       Print (Msg_upload_failed 400 ''Invalid dataset'')])"
proof -
  let ?resp = "\<lparr>status_code = 400, ok = False, text' = ''Invalid dataset'', json_value = None\<rparr>"
  have resp: "?resp = post_reply world_rejected (upload_url_of ''W1'' ''SALES'') (bearer ''tok'')
      (pbix_file ''SALES'' [80, 75, 3, 4])"
    by (simp only: world_rejected_facts(3))
  have name: "getenv world_rejected ''EMPTY_PBIX_NAME'' = Some ''set''"
    by (simp add: world_rejected_def world_late_def)
  from upload_accepted_iff_2xx [OF world_rejected_facts(1) world_rejected_facts(2) resp, of "[]"]
    world_rejected_facts(4) name
  show ?thesis by simp
qed


section \<open>Outcomes\<close>

text \<open>
  C5. When the import is accepted and none of the eight listing attempts finds the report,
  \<^verbatim>\<open>fetch_report_id\<close> returns \<open>None\<close> and the run ends normally: \<^verbatim>\<open>upload_report\<close> of
  \<^verbatim>\<open>main.py\<close> returns a response whose message is "Upload accepted but report ID not yet
  confirmed" and whose report id is absent, after the eight attempts; \<^verbatim>\<open>main\<close> of
  \<^verbatim>\<open>upload_report.py\<close> returns after printing that the id could not be confirmed. Neither
  raises, unlike a rejected import.
\<close>

theorem accepted_but_unconfirmed:
  assumes "token_result e ''access_token'' = Some tok" and "blob_result e = Inr b"
    and "status_code (post_reply e (upload_url_of ws rn) (bearer tok) (pbix_file rn b))
           \<in> {200, 201, 202}"
    and "\<forall>j<8. listing_match e (reports_url_of ws) (bearer tok) rn (listing_calls tr + j) = None"
  shows "upload_report e \<lparr>workspace_id = ws, report_name = rn\<rparr> tr =
      (Inr \<lparr>message = ''Upload accepted but report ID not yet confirmed'',
            resp_workspace_id = ws, resp_report_name = rn, report_id = None\<rparr>,
       tr @ [Acquire_token, Download_blob,
             Post (upload_url_of ws rn) (bearer tok) (pbix_file rn b)]
          @ concat (replicate 8 [Sleep 3, Get (reports_url_of ws) (bearer tok)]))
   \<and> (filter (\<lambda>v. \<not> truthy (getenv e v)) required_env = [] \<longrightarrow>
        (\<exists>tr'. main_script e \<lparr>arg_workspace_id = ws, arg_report_name = rn\<rparr> tr =
           (Inr (), tr' @ [Print Msg_unconfirmed, Print (Msg_check_workspace ws)])
         \<and> fetch_report_id_script e (bearer tok) ws rn
              (tr @ [Acquire_token, Print Msg_token_acquired, Download_blob,
                     Print (Msg_downloaded (getenv e ''EMPTY_PBIX_NAME'') (length b)),
                     Print (Msg_uploading rn ws),
                     Post (upload_url_of ws rn) (bearer tok) (pbix_file rn b),
                     Print (Msg_upload_accepted (status_code
                       (post_reply e (upload_url_of ws rn) (bearer tok) (pbix_file rn b))))])
             = (None, tr')))
   \<and> fst (fetch_report_id e (bearer tok) ws rn
             (tr @ [Acquire_token, Download_blob,
                    Post (upload_url_of ws rn) (bearer tok) (pbix_file rn b)])) = None"
proof -
  let ?post = "Post (upload_url_of ws rn) (bearer tok) (pbix_file rn b)"
  let ?body = "\<lparr>workspace_id = ws, report_name = rn\<rparr>"
  let ?args = "\<lparr>arg_workspace_id = ws, arg_report_name = rn\<rparr>"
  let ?tr = "tr @ [Acquire_token, Download_blob, ?post]"
  let ?trs = "tr @ [Acquire_token, Print Msg_token_acquired, Download_blob,
                     Print (Msg_downloaded (getenv e ''EMPTY_PBIX_NAME'') (length b)),
                     Print (Msg_uploading rn ws), ?post,
                     Print (Msg_upload_accepted (status_code
                       (post_reply e (upload_url_of ws rn) (bearer tok) (pbix_file rn b))))]"
  from assms(4)
  have none: "\<forall>j<8. listing_match e (reports_url_of ws) (bearer tok) rn (listing_calls ?tr + j) = None"
    by simp
  from assms(4)
  have nones: "\<forall>j<8. listing_match e (reports_url_of ws) (bearer tok) rn (listing_calls ?trs + j) = None"
    by simp
  note f = fetch_report_id_exhausted(1) [OF none]
  note fs = fetch_report_id_exhausted(2) [OF nones]
  from upload_report_accepted [of e tok b ?body tr, OF assms(1) assms(2)] assms(3) f
  have m: "upload_report e ?body tr =
      (Inr \<lparr>message = ''Upload accepted but report ID not yet confirmed'',
            resp_workspace_id = ws, resp_report_name = rn, report_id = None\<rparr>,
       tr @ [Acquire_token, Download_blob, ?post]
          @ concat (replicate 8 [Sleep 3, Get (reports_url_of ws) (bearer tok)]))"
    by simp
  have s: "\<exists>tr'. main_script e ?args tr =
           (Inr (), tr' @ [Print Msg_unconfirmed, Print (Msg_check_workspace ws)])
         \<and> fetch_report_id_script e (bearer tok) ws rn ?trs = (None, tr')"
    if env: "filter (\<lambda>v. \<not> truthy (getenv e v)) required_env = []"
  proof -
    from main_script_accepted [of e tok b ?args tr, OF env assms(1) assms(2)] assms(3) fs
    have "main_script e ?args tr =
        (Inr (), (?trs @ concat (map (\<lambda>a. [Sleep 3, Get (reports_url_of ws) (bearer tok),
                                             Print (Msg_attempt (Suc a))]) [0..<8]))
                 @ [Print Msg_unconfirmed, Print (Msg_check_workspace ws)])"
      by simp
    with fs show ?thesis by blast
  qed
  from f have "fst (fetch_report_id e (bearer tok) ws rn ?tr) = None" by simp
  with m s show ?thesis by blast
qed

lemma world_never_facts:
  "token_result world_never ''access_token'' = Some ''tok''"
  "blob_result world_never = Inr [80, 75, 3, 4]"
  "post_reply world_never u h f = accepted_reply"
  "filter (\<lambda>v. \<not> truthy (getenv world_never v)) required_env = []"
  by (simp_all add: world_never_def world_late_def required_env_def)

theorem accepted_but_unconfirmed_witness:
  "fst (upload_report world_never \<lparr>workspace_id = ''W1'', report_name = ''SALES''\<rparr> []) =
     Inr \<lparr>message = ''Upload accepted but report ID not yet confirmed'',
          resp_workspace_id = ''W1'', resp_report_name = ''SALES'', report_id = None\<rparr>
   \<and> listing_calls
       (snd (upload_report world_never \<lparr>workspace_id = ''W1'', report_name = ''SALES''\<rparr> [])) = 8
   \<and> fst (main_script world_never \<lparr>arg_workspace_id = ''W1'', arg_report_name = ''SALES''\<rparr> [])
       = Inr ()"
proof -
  have acc: "status_code (post_reply world_never (upload_url_of ''W1'' ''SALES'') (bearer ''tok'')
       (pbix_file ''SALES'' [80, 75, 3, 4])) \<in> {200, 201, 202}"
    by (simp add: world_never_facts(3) accepted_reply_def)
  have none: "\<forall>j<8. listing_match world_never (reports_url_of ''W1'') (bearer ''tok'') ''SALES''
       (listing_calls [] + j) = None"
    by (simp add: world_never_matches)
  from accepted_but_unconfirmed [OF world_never_facts(1) world_never_facts(2) acc none]
    world_never_facts(4)
  show ?thesis by auto
qed


text \<open>
  C7. When the dict returned by the identity provider has no \<^verbatim>\<open>access_token\<close> key, the run
  fails right after that one call, before the object store or the platform is contacted,
  and does not try again: \<^verbatim>\<open>main.py\<close> raises \<^verbatim>\<open>HTTPException\<close> 500 whose detail is
  "Token error: " followed by the provider's \<^verbatim>\<open>error_description\<close>; \<^verbatim>\<open>upload_report.py\<close>
  prints the \<^verbatim>\<open>error_description\<close> and exits with code 1.
\<close>

theorem no_token_fails_before_any_request:
  assumes "token_result e ''access_token'' = None"
  shows "upload_report e body tr =
      (Inl (HTTPException 500
         (''Token error: '' @ format_get (token_result e ''error_description''))),
       tr @ [Acquire_token])
   \<and> (\<forall>d. token_result e ''error_description'' = Some d \<longrightarrow>
        fst (upload_report e body tr) = Inl (HTTPException 500 (''Token error: '' @ d)))
   \<and> get_access_token_script e tr =
      (Inl (SystemExit 1),
       tr @ [Acquire_token, Print (Msg_token_error (token_result e ''error_description''))])
   \<and> (filter (\<lambda>v. \<not> truthy (getenv e v)) required_env = [] \<longrightarrow>
        main_script e a tr =
          (Inl (SystemExit 1),
           tr @ [Acquire_token, Print (Msg_token_error (token_result e ''error_description''))]))"
proof -
  note m = upload_report_no_token [OF assms, of body tr]
  have d: "fst (upload_report e body tr) = Inl (HTTPException 500 (''Token error: '' @ d))"
    if "token_result e ''error_description'' = Some d" for d
    using m that by simp
  have s: "get_access_token_script e tr =
      (Inl (SystemExit 1),
       tr @ [Acquire_token, Print (Msg_token_error (token_result e ''error_description''))])"
    using assms by (simp add: get_access_token_script_def)
  have r: "main_script e a tr =
          (Inl (SystemExit 1),
           tr @ [Acquire_token, Print (Msg_token_error (token_result e ''error_description''))])"
    if "filter (\<lambda>v. \<not> truthy (getenv e v)) required_env = []"
    using that assms by (rule main_script_no_token)
  from m d s r show ?thesis by blast
qed

theorem no_token_fails_before_any_request_witness:
  "token_result world_no_token ''access_token'' = None
   \<and> upload_report world_no_token \<lparr>workspace_id = ''W1'', report_name = ''SALES''\<rparr> [] =
      (Inl (HTTPException 500 ''Token error: Invalid client secret''), [Acquire_token])
   \<and> main_script world_no_token \<lparr>arg_workspace_id = ''W1'', arg_report_name = ''SALES''\<rparr> [] =
      (Inl (SystemExit 1),
       [Acquire_token, Print (Msg_token_error (Some ''Invalid client secret''))])"
proof -
  have none: "token_result world_no_token ''access_token'' = None"
    by (simp add: world_no_token_def)
  have descr: "token_result world_no_token ''error_description'' = Some ''Invalid client secret''"
    by (simp add: world_no_token_def)
  have env: "filter (\<lambda>v. \<not> truthy (getenv world_no_token v)) required_env = []"
    by (simp add: world_no_token_def world_late_def required_env_def)
  from no_token_fails_before_any_request [OF none, of _ "[]"] none descr env
  show ?thesis by simp
qed

section \<open>Fetching the artifact\<close>

text \<open>
  C8. A run in which the object store raises while the artifact is fetched. In \<^verbatim>\<open>main.py\<close>
  the exception is caught and raised again as \<^verbatim>\<open>HTTPException\<close> 500 with detail
  "Blob download failed: " followed by \<^verbatim>\<open>str(e)\<close>. In \<^verbatim>\<open>upload_report.py\<close>,
  \<^verbatim>\<open>download_empty_pbix\<close> has no \<^verbatim>\<open>try\<close>: the store's exception leaves the function and
  \<^verbatim>\<open>main\<close> unchanged, not wrapped and without the "ERROR:" line and exit code that the
  script's other two failures get.
\<close>

theorem store_error_not_wrapped_by_script:
  "download_empty_pbix world_no_blob [] =
     (Inl (HTTPException 500 ''Blob download failed: The specified blob does not exist.''),
      [Download_blob])
   \<and> download_empty_pbix_script world_no_blob [] =
     (Inl (StoreException ''The specified blob does not exist.''), [Download_blob])
   \<and> main_script world_no_blob \<lparr>arg_workspace_id = ''W1'', arg_report_name = ''SALES''\<rparr> [] =
     (Inl (StoreException ''The specified blob does not exist.''),
      [Acquire_token, Print Msg_token_acquired, Download_blob])
   \<and> upload_report world_no_blob \<lparr>workspace_id = ''W1'', report_name = ''SALES''\<rparr> [] =
     (Inl (HTTPException 500 ''Blob download failed: The specified blob does not exist.''),
      [Acquire_token, Download_blob])"
proof -
  have tok: "token_result world_no_blob ''access_token'' = Some ''tok''"
    by (simp add: world_no_blob_def world_late_def)
  have blob: "blob_result world_no_blob = Inl ''The specified blob does not exist.''"
    by (simp add: world_no_blob_def)
  have env: "filter (\<lambda>v. \<not> truthy (getenv world_no_blob v)) required_env = []"
    by (simp add: world_no_blob_def world_late_def required_env_def)
  from blob have "download_empty_pbix world_no_blob [] =
     (Inl (HTTPException 500 ''Blob download failed: The specified blob does not exist.''),
      [Download_blob])"
    by (simp add: download_empty_pbix_def)
  moreover from blob have "download_empty_pbix_script world_no_blob [] =
     (Inl (StoreException ''The specified blob does not exist.''), [Download_blob])"
    by (simp add: download_empty_pbix_script_def)
  moreover from main_script_no_blob [OF env tok blob, of _ "[]"]
  have "main_script world_no_blob \<lparr>arg_workspace_id = ''W1'', arg_report_name = ''SALES''\<rparr> [] =
     (Inl (StoreException ''The specified blob does not exist.''),
      [Acquire_token, Print Msg_token_acquired, Download_blob])"
    by simp
  moreover from upload_report_no_blob [OF tok blob, of _ "[]"]
  have "upload_report world_no_blob \<lparr>workspace_id = ''W1'', report_name = ''SALES''\<rparr> [] =
     (Inl (HTTPException 500 ''Blob download failed: The specified blob does not exist.''),
      [Acquire_token, Download_blob])"
    by simp
  ultimately show ?thesis by (intro conjI)
qed


section \<open>The URLs\<close>







lemma split_on_not_Nil [simp]: "split_on c s \<noteq> []"
  by (induction s) (simp_all split: list.split)








end
